theory Spec2Isabelle
  imports Complex_Main
begin

section \<open>Data model\<close>

text \<open>
  The script \<^verbatim>\<open>lagaris_02_tf_adam.py\<close> trains a network with one hidden layer on the
  residual of the lagaris02 initial value problem. Tensors of dtype float32 are
  modelled by lists of reals: the arithmetic of the run is the exact arithmetic that
  float32 approximates. The infinities and NaN of float32 are modelled apart, in section
  \<open>The special values of float32\<close>, for the statements that depend on them.
\<close>

datatype py_error = ValueError | TypeError | NameError

text \<open>
  \<^verbatim>\<open>model.trainable_variables\<close>: the hidden kernel of shape (1, H), of which the script
  reads the single row \<^verbatim>\<open>[0][0]\<close>, the hidden bias of shape (H,), and the output kernel of
  shape (H, 1), of which the script reads the single column \<^verbatim>\<open>[2][:, 0]\<close>.
\<close>

record params =
  kernel1 :: "real list"
  bias1 :: "real list"
  kernel2 :: "real list"

text \<open>The constants of lines 67 to 79, read as a configuration.\<close>

record config =
  hidden_units :: nat
  collocation_count :: nat
  epochs :: nat
  learning_rate :: real
  seed :: int

text \<open>
  The object \<^verbatim>\<open>ODE1IVP(eq_module)\<close> of line 92: the residual form of the equation and
  the optional analytical solution and derivative (\<^verbatim>\<open>None\<close> when the equation module does
  not define them).
\<close>

record ode1ivp =
  ode_G :: "real \<Rightarrow> real \<Rightarrow> real \<Rightarrow> real"
  ode_Ya :: "(real \<Rightarrow> real) option"
  ode_dYa_dx :: "(real \<Rightarrow> real) option"

text \<open>
  What the script takes from its libraries and cannot be read in its source: the grid
  generator of \<^verbatim>\<open>nnde\<close>, and the random number generator of TensorFlow, whose global
  state has the type \<open>'g\<close>. \<open>set_seed\<close> is the state that \<^verbatim>\<open>tf.random.set_seed\<close>
  installs; \<open>uniform\<close> draws one number of the unit interval.
\<close>

record 'g library =
  create_training_grid :: "nat \<Rightarrow> real list"
  set_seed :: "int \<Rightarrow> 'g"
  uniform :: "'g \<Rightarrow> real \<times> 'g"

text \<open>The steps of an epoch, as events of the run.\<close>

datatype phase = FORWARD | RESIDUAL | LOSS | RECORD_LOSS | BACKWARD | RECORD_PARAMS | UPDATE

text \<open>
  The Adam optimizer of line 108: its step counter and the first and second moment
  estimates, which have the layout of the parameters and are created (as zeros) by the
  first \<^verbatim>\<open>apply_gradients\<close>.
\<close>

record optimizer =
  opt_learning_rate :: real
  iterations :: nat
  moments :: "(params \<times> params) option"

text \<open>
  The variables of the training loop. \<open>weights\<close> is \<open>None\<close> until the first call of the
  model: a Keras \<^verbatim>\<open>Sequential\<close> of \<^verbatim>\<open>Dense\<close> layers without an input shape creates its
  variables when it is first called. The fields \<open>cur_\<close> hold the values of \<^verbatim>\<open>N\<close>, \<^verbatim>\<open>y\<close>,
  \<^verbatim>\<open>dy_dx\<close>, \<^verbatim>\<open>G\<close>, \<^verbatim>\<open>L\<close> and \<^verbatim>\<open>grad\<close> of the current epoch.
\<close>

record 'g tstate =
  rng :: 'g
  weights :: "params option"
  adam :: optimizer
  losses :: "real list"
  phist :: "real list list"
  trace :: "phase list"
  cur_N :: "real list"
  cur_y :: "real list"
  cur_dy_dx :: "real list"
  cur_G :: "real list"
  cur_L :: real
  cur_grad :: params

text \<open>
  The files the script writes, and the loss history, the parameters and the events of
  the run it ends with.
\<close>

record outputs =
  training_points_dat :: "real list"
  phist_dat :: "real list list"
  Yt_dat :: "real list"
  dYt_dx_dat :: "real list"
  Ya_dat :: "real list option"
  dYa_dx_dat :: "real list option"
  Y_err_dat :: "real list option"
  dY_dx_err_dat :: "real list option"
  final_losses :: "real list"
  final_params :: params
  final_trace :: "phase list"

section \<open>The network and the trial solution\<close>

definition sigmoid :: "real \<Rightarrow> real" where
  "sigmoid z = 1 / (1 + exp (- z))"

text \<open>The hidden units: weight, bias and output weight of each.\<close>

definition units :: "params \<Rightarrow> (real \<times> real \<times> real) list" where
  "units \<theta> = zip (kernel1 \<theta>) (zip (bias1 \<theta>) (kernel2 \<theta>))"

text \<open>\<^verbatim>\<open>model(x)\<close> at one point: the sigmoid layer with bias, then the linear layer without.\<close>

definition model_call :: "params \<Rightarrow> real \<Rightarrow> real" where
  "model_call \<theta> x = (\<Sum>(wi, ui, vi) \<leftarrow> units \<theta>. vi * sigmoid (wi * x + ui))"

text \<open>\<^verbatim>\<open>tape.gradient(N, xtv)\<close> at one point (line 169).\<close>

definition dN_dx :: "params \<Rightarrow> real \<Rightarrow> real" where
  "dN_dx \<theta> x =
     (\<Sum>(wi, ui, vi) \<leftarrow> units \<theta>.
        vi * (wi * (sigmoid (wi * x + ui) * (1 - sigmoid (wi * x + ui)))))"

text \<open>\<^verbatim>\<open>y = x*N\<close> (line 126) and \<^verbatim>\<open>tape1.gradient(y, x)\<close> (line 130) at one point.\<close>

definition trial_y :: "params \<Rightarrow> real \<Rightarrow> real" where
  "trial_y \<theta> x = x * model_call \<theta> x"

definition dy_dx :: "params \<Rightarrow> real \<Rightarrow> real" where
  "dy_dx \<theta> x = model_call \<theta> x + x * dN_dx \<theta> x"

text \<open>Line 133: the residual of the equation, written out in the loop.\<close>

definition residual_G :: "real \<Rightarrow> real \<Rightarrow> real \<Rightarrow> real" where
  "residual_G x y dy = dy + y / 5 - exp (- x / 5) * cos x"

text \<open>Line 136: \<^verbatim>\<open>tf.reduce_sum(G**2)\<close>.\<close>

definition reduce_sum_sq :: "real list \<Rightarrow> real" where
  "reduce_sum_sq G = (\<Sum>g \<leftarrow> G. g ^ 2)"

definition loss_at :: "real list \<Rightarrow> params \<Rightarrow> real" where
  "loss_at xs \<theta> = reduce_sum_sq (map (\<lambda>x. residual_G x (trial_y \<theta> x) (dy_dx \<theta> x)) xs)"

text \<open>
  Line 142: \<^verbatim>\<open>tape2.gradient(L, model.trainable_variables)\<close>, the derivative of \<open>L\<close> in
  each parameter, written out. \<open>dsigmoid\<close> and \<open>d2sigmoid\<close> are the first two derivatives of
  the sigmoid, \<open>unit_G\<close> is the term of one hidden unit in the residual at \<open>x\<close>, and
  \<open>dG_dw\<close>, \<open>dG_du\<close>, \<open>dG_dv\<close> are the derivatives of that term in the weight, the bias and
  the output weight of the unit. Section \<open>The derivatives of automatic differentiation\<close>
  proves that these are the derivatives.
\<close>

definition dsigmoid :: "real \<Rightarrow> real" where
  "dsigmoid z = sigmoid z * (1 - sigmoid z)"

definition d2sigmoid :: "real \<Rightarrow> real" where
  "d2sigmoid z = dsigmoid z * (1 - 2 * sigmoid z)"

definition unit_G :: "real \<Rightarrow> real \<times> real \<times> real \<Rightarrow> real" where
  "unit_G x = (\<lambda>(wi, ui, vi).
     vi * sigmoid (wi * x + ui)
     + x * (vi * (wi * dsigmoid (wi * x + ui)))
     + x * (vi * sigmoid (wi * x + ui)) / 5)"

definition dG_dw :: "real \<Rightarrow> real \<times> real \<times> real \<Rightarrow> real" where
  "dG_dw x = (\<lambda>(wi, ui, vi).
     vi * dsigmoid (wi * x + ui) * x
     + (x * vi * dsigmoid (wi * x + ui) + x * vi * wi * d2sigmoid (wi * x + ui) * x)
     + x * vi * dsigmoid (wi * x + ui) * x / 5)"

definition dG_du :: "real \<Rightarrow> real \<times> real \<times> real \<Rightarrow> real" where
  "dG_du x = (\<lambda>(wi, ui, vi).
     vi * dsigmoid (wi * x + ui)
     + x * vi * wi * d2sigmoid (wi * x + ui)
     + x * vi * dsigmoid (wi * x + ui) / 5)"

definition dG_dv :: "real \<Rightarrow> real \<times> real \<times> real \<Rightarrow> real" where
  "dG_dv x = (\<lambda>(wi, ui, vi).
     sigmoid (wi * x + ui)
     + x * wi * dsigmoid (wi * x + ui)
     + x * sigmoid (wi * x + ui) / 5)"

definition dL_d :: "(real \<Rightarrow> real \<times> real \<times> real \<Rightarrow> real) \<Rightarrow> real list \<Rightarrow> params \<Rightarrow> real list" where
  "dL_d dG xs \<theta> =
     map (\<lambda>unit. \<Sum>x \<leftarrow> xs. 2 * residual_G x (trial_y \<theta> x) (dy_dx \<theta> x) * dG x unit) (units \<theta>)"

definition tape2_gradient :: "real list \<Rightarrow> params \<Rightarrow> params" where
  "tape2_gradient xs \<theta> =
     \<lparr>kernel1 = dL_d dG_dw xs \<theta>, bias1 = dL_d dG_du xs \<theta>, kernel2 = dL_d dG_dv xs \<theta>\<rparr>"

section \<open>The optimizer\<close>

text \<open>
  Modelled from the spec: the update rule of \<^verbatim>\<open>tf.keras.optimizers.Adam\<close>, which is not
  in the repository. Section 4.4 of the specification gives it for one parameter tensor
  with gradient \<open>g\<close> at step \<open>t\<close>, with \<open>\<beta>1 = 0.9\<close>, \<open>\<beta>2 = 0.999\<close> and \<open>\<epsilon> = 1e-7\<close>.
\<close>

definition beta1 :: real where "beta1 = 9 / 10"
definition beta2 :: real where "beta2 = 999 / 1000"
definition epsilon :: real where "epsilon = 1 / 10 ^ 7"

definition adam_tensor ::
  "real \<Rightarrow> nat \<Rightarrow> real list \<Rightarrow> real list \<Rightarrow> real list \<Rightarrow> real list
     \<Rightarrow> real list \<times> real list \<times> real list" where
  "adam_tensor lr t ms vs gs ps =
     (let ms' = map2 (\<lambda>m g. beta1 * m + (1 - beta1) * g) ms gs;
          vs' = map2 (\<lambda>v g. beta2 * v + (1 - beta2) * g ^ 2) vs gs;
          ps' = map2 (\<lambda>p (m, v).
                   p - lr * (m / (1 - beta1 ^ t)) / (sqrt (v / (1 - beta2 ^ t)) + epsilon))
                 ps (zip ms' vs')
      in (ms', vs', ps'))"

definition zeros_like :: "params \<Rightarrow> params" where
  "zeros_like \<theta> =
     \<lparr>kernel1 = map (\<lambda>_. 0) (kernel1 \<theta>), bias1 = map (\<lambda>_. 0) (bias1 \<theta>),
      kernel2 = map (\<lambda>_. 0) (kernel2 \<theta>)\<rparr>"

text \<open>
  Line 154: \<^verbatim>\<open>optimizer.apply_gradients(zip(grad, model.trainable_variables))\<close>. The step
  counter advances once, then the pairs of gradient and variable are taken in turn and
  each variable is assigned in place.
\<close>

definition apply_gradients :: "optimizer \<Rightarrow> params \<Rightarrow> params \<Rightarrow> optimizer \<times> params" where
  "apply_gradients opt grad \<theta> =
     (let (m0, v0) = (case moments opt of None \<Rightarrow> (zeros_like \<theta>, zeros_like \<theta>) | Some mv \<Rightarrow> mv);
          t = iterations opt + 1;
          lr = opt_learning_rate opt;
          (m1, v1, p1) = adam_tensor lr t (kernel1 m0) (kernel1 v0) (kernel1 grad) (kernel1 \<theta>);
          \<theta>1 = \<theta>\<lparr>kernel1 := p1\<rparr>;
          (m2, v2, p2) = adam_tensor lr t (bias1 m0) (bias1 v0) (bias1 grad) (bias1 \<theta>1);
          \<theta>2 = \<theta>1\<lparr>bias1 := p2\<rparr>;
          (m3, v3, p3) = adam_tensor lr t (kernel2 m0) (kernel2 v0) (kernel2 grad) (kernel2 \<theta>2);
          \<theta>3 = \<theta>2\<lparr>kernel2 := p3\<rparr>
      in (opt\<lparr>iterations := t,
               moments := Some (\<lparr>kernel1 = m1, bias1 = m2, kernel2 = m3\<rparr>,
                                \<lparr>kernel1 = v1, bias1 = v2, kernel2 = v3\<rparr>)\<rparr>,
          \<theta>3))"

section \<open>Building the model\<close>

fun draws :: "('g \<Rightarrow> real \<times> 'g) \<Rightarrow> nat \<Rightarrow> 'g \<Rightarrow> real list \<times> 'g" where
  "draws d 0 g = ([], g)"
| "draws d (Suc n) g =
     (let (r, g1) = d g; (rs, g2) = draws d n g1 in (r # rs, g2))"

text \<open>
  The default kernel initializer of a \<^verbatim>\<open>Dense\<close> layer: uniform in \<open>[-limit, limit]\<close> with
  \<open>limit = sqrt (6 / (fan_in + fan_out))\<close>. The default bias initializer is zeros.
\<close>

definition glorot_uniform :: "'g library \<Rightarrow> nat \<Rightarrow> nat \<Rightarrow> 'g \<Rightarrow> real list \<times> 'g" where
  "glorot_uniform lib fan_in fan_out g =
     (let limit = sqrt (6 / (real fan_in + real fan_out));
          (rs, g1) = draws (uniform lib) (fan_in * fan_out) g
      in (map (\<lambda>r. - limit + 2 * limit * r) rs, g1))"

definition build_weights :: "'g library \<Rightarrow> nat \<Rightarrow> 'g \<Rightarrow> params \<times> 'g" where
  "build_weights lib H g =
     (let (k1, g1) = glorot_uniform lib 1 H g;
          (k2, g2) = glorot_uniform lib H 1 g1
      in (\<lparr>kernel1 = k1, bias1 = replicate H 0, kernel2 = k2\<rparr>, g2))"

text \<open>The first call of the model creates its variables; later calls find them.\<close>

definition ensure_built :: "'g library \<Rightarrow> nat \<Rightarrow> 'g tstate \<Rightarrow> 'g tstate" where
  "ensure_built lib H s =
     (case weights s of
        Some \<theta> \<Rightarrow> s
      | None \<Rightarrow> (let (\<theta>, g) = build_weights lib H (rng s) in s\<lparr>rng := g, weights := Some \<theta>\<rparr>))"

text \<open>
  \<^verbatim>\<open>model.trainable_variables\<close>. Before the model is built it holds no variable; the script
  reads it only after a call of the model.
\<close>

definition trainable_variables :: "'g tstate \<Rightarrow> params" where
  "trainable_variables s =
     (case weights s of Some \<theta> \<Rightarrow> \<theta> | None \<Rightarrow> \<lparr>kernel1 = [], bias1 = [], kernel2 = []\<rparr>)"

section \<open>One epoch of the training loop\<close>

text \<open>Lines 123 and 126: \<^verbatim>\<open>N = model(x)\<close> and \<^verbatim>\<open>y = x*N\<close>, under both tapes.\<close>

definition forward_step :: "'g library \<Rightarrow> nat \<Rightarrow> real list \<Rightarrow> 'g tstate \<Rightarrow> 'g tstate" where
  "forward_step lib H xs s =
     (let s1 = ensure_built lib H s;
          N = map (model_call (trainable_variables s1)) xs
      in s1\<lparr>cur_N := N, cur_y := map2 (\<lambda>x n. x * n) xs N, trace := trace s1 @ [FORWARD]\<rparr>)"

text \<open>Lines 130 and 133: \<^verbatim>\<open>dy_dx = tape1.gradient(y, x)\<close>, then the residual.\<close>

definition residual_step :: "real list \<Rightarrow> 'g tstate \<Rightarrow> 'g tstate" where
  "residual_step xs s =
     (let d = map (dy_dx (trainable_variables s)) xs
      in s\<lparr>cur_dy_dx := d,
            cur_G := map (\<lambda>(x, y, dy). residual_G x y dy) (zip xs (zip (cur_y s) d)),
            trace := trace s @ [RESIDUAL]\<rparr>)"

text \<open>Line 136.\<close>

definition loss_step :: "'g tstate \<Rightarrow> 'g tstate" where
  "loss_step s = s\<lparr>cur_L := reduce_sum_sq (cur_G s), trace := trace s @ [LOSS]\<rparr>"

text \<open>Line 139: \<^verbatim>\<open>losses.append(L.numpy())\<close>.\<close>

definition record_loss_step :: "'g tstate \<Rightarrow> 'g tstate" where
  "record_loss_step s = s\<lparr>losses := losses s @ [cur_L s], trace := trace s @ [RECORD_LOSS]\<rparr>"

text \<open>Line 142.\<close>

definition backward_step :: "real list \<Rightarrow> 'g tstate \<Rightarrow> 'g tstate" where
  "backward_step xs s =
     s\<lparr>cur_grad := tape2_gradient xs (trainable_variables s), trace := trace s @ [BACKWARD]\<rparr>"

text \<open>Lines 145 to 151: \<^verbatim>\<open>phist.append(np.hstack((w, u, v)))\<close>.\<close>

definition hstack :: "params \<Rightarrow> real list" where
  "hstack \<theta> = kernel1 \<theta> @ bias1 \<theta> @ kernel2 \<theta>"

definition record_params_step :: "'g tstate \<Rightarrow> 'g tstate" where
  "record_params_step s =
     s\<lparr>phist := phist s @ [hstack (trainable_variables s)], trace := trace s @ [RECORD_PARAMS]\<rparr>"

text \<open>Line 154.\<close>

definition update_step :: "'g tstate \<Rightarrow> 'g tstate" where
  "update_step s =
     (let (opt, \<theta>) = apply_gradients (adam s) (cur_grad s) (trainable_variables s)
      in s\<lparr>adam := opt, weights := Some \<theta>, trace := trace s @ [UPDATE]\<rparr>)"

text \<open>Lines 115 to 154: the body of the loop, statement by statement.\<close>

definition epoch :: "'g library \<Rightarrow> nat \<Rightarrow> real list \<Rightarrow> 'g tstate \<Rightarrow> 'g tstate" where
  "epoch lib H xs s =
     update_step (record_params_step (backward_step xs (record_loss_step
       (loss_step (residual_step xs (forward_step lib H xs s))))))"

text \<open>\<^verbatim>\<open>for epoch in range(n_epochs)\<close>.\<close>

fun train_loop :: "'g library \<Rightarrow> nat \<Rightarrow> real list \<Rightarrow> nat \<Rightarrow> 'g tstate \<Rightarrow> 'g tstate" where
  "train_loop lib H xs 0 s = s"
| "train_loop lib H xs (Suc n) s = train_loop lib H xs n (epoch lib H xs s)"

section \<open>The script\<close>

text \<open>Lines 38 to 40: the training grid of \<^verbatim>\<open>nnde\<close>, as an array.\<close>

definition create_training_data :: "'g library \<Rightarrow> nat \<Rightarrow> real list" where
  "create_training_data lib nt = create_training_grid lib nt"

text \<open>
  Lines 43 to 54: \<^verbatim>\<open>build_model(H)\<close> creates the hidden layer of \<open>H\<close> units and the output
  layer. A \<^verbatim>\<open>Dense\<close> layer creates its kernel and bias when it is first called, so the model
  that \<^verbatim>\<open>build_model\<close> returns has no variables yet.
\<close>

definition build_model :: "nat \<Rightarrow> params option" where
  "build_model H = None"

text \<open>
  The state after lines 95 to 99: the model is the one \<^verbatim>\<open>build_model(H)\<close> returns, the
  histories are empty, and the random number generator is in the state \<open>g\<close> in which the
  process started.
\<close>

definition fresh_state :: "'g \<Rightarrow> nat \<Rightarrow> 'g tstate" where
  "fresh_state g H =
     \<lparr>rng = g,
      weights = build_model H,
      adam = \<lparr>opt_learning_rate = 0, iterations = 0, moments = None\<rparr>,
      losses = [],
      phist = [],
      trace = [],
      cur_N = [], cur_y = [], cur_dy_dx = [], cur_G = [], cur_L = 0,
      cur_grad = \<lparr>kernel1 = [], bias1 = [], kernel2 = []\<rparr>\<rparr>"

text \<open>
  Line 102 seeds the generator and line 108 creates the optimizer: the state in which the
  loop starts.
\<close>

definition init_state :: "'g library \<Rightarrow> 'g \<Rightarrow> config \<Rightarrow> 'g tstate" where
  "init_state lib g cfg =
     (fresh_state g (hidden_units cfg))
       \<lparr>rng := set_seed lib (seed cfg),
        adam := \<lparr>opt_learning_rate = learning_rate cfg, iterations = 0, moments = None\<rparr>\<rparr>"

text \<open>
  A Python value used as a condition, and a call of it: \<^verbatim>\<open>None\<close> is false and calling it
  raises \<^verbatim>\<open>TypeError\<close>; a function is true.
\<close>

definition truthy :: "'a option \<Rightarrow> bool" where
  "truthy f = (case f of None \<Rightarrow> False | Some _ \<Rightarrow> True)"

definition py_call :: "(real \<Rightarrow> real) option \<Rightarrow> real \<Rightarrow> py_error + real" where
  "py_call f x = (case f of None \<Rightarrow> Inl TypeError | Some h \<Rightarrow> Inr (h x))"

text \<open>A list comprehension whose element expression may raise.\<close>

fun comprehension :: "('a \<Rightarrow> py_error + 'b) \<Rightarrow> 'a list \<Rightarrow> py_error + 'b list" where
  "comprehension f [] = Inr []"
| "comprehension f (x # xs) =
     (case f x of
        Inl e \<Rightarrow> Inl e
      | Inr y \<Rightarrow> (case comprehension f xs of Inl e \<Rightarrow> Inl e | Inr ys \<Rightarrow> Inr (y # ys)))"

text \<open>
  Lines 177 to 191, one definition for each \<^verbatim>\<open>if\<close>. The variables \<^verbatim>\<open>Ya\<close> and \<^verbatim>\<open>dYa_dx\<close> of
  the script are bound exactly when their files are written, so the fields \<open>Ya_dat\<close> and
  \<open>dYa_dx_dat\<close> stand for them; reading an unbound variable raises \<^verbatim>\<open>NameError\<close>.
\<close>

definition save_Ya :: "ode1ivp \<Rightarrow> real list \<Rightarrow> outputs \<Rightarrow> py_error + outputs" where
  "save_Ya eq xt out =
     (if truthy (ode_Ya eq)
      then (case comprehension (py_call (ode_Ya eq)) xt of
              Inl e \<Rightarrow> Inl e
            | Inr ya \<Rightarrow> Inr (out\<lparr>Ya_dat := Some ya\<rparr>))
      else Inr out)"

definition save_dYa_dx :: "ode1ivp \<Rightarrow> real list \<Rightarrow> outputs \<Rightarrow> py_error + outputs" where
  "save_dYa_dx eq xt out =
     (if truthy (ode_dYa_dx eq)
      then (case comprehension (py_call (ode_dYa_dx eq)) xt of
              Inl e \<Rightarrow> Inl e
            | Inr dya \<Rightarrow> Inr (out\<lparr>dYa_dx_dat := Some dya\<rparr>))
      else Inr out)"

definition save_Y_err :: "ode1ivp \<Rightarrow> outputs \<Rightarrow> py_error + outputs" where
  "save_Y_err eq out =
     (if truthy (ode_Ya eq)
      then (case Ya_dat out of
              None \<Rightarrow> Inl NameError
            | Some ya \<Rightarrow> Inr (out\<lparr>Y_err_dat := Some (map2 (\<lambda>a b. a - b) (Yt_dat out) ya)\<rparr>))
      else Inr out)"

definition save_dY_dx_err :: "ode1ivp \<Rightarrow> outputs \<Rightarrow> py_error + outputs" where
  "save_dY_dx_err eq out =
     (if truthy (ode_dYa_dx eq)
      then (case dYa_dx_dat out of
              None \<Rightarrow> Inl NameError
            | Some dya \<Rightarrow>
                Inr (out\<lparr>dY_dx_err_dat := Some (map2 (\<lambda>a b. a - b) (dYt_dx_dat out) dya)\<rparr>))
      else Inr out)"

definition optional_outputs :: "ode1ivp \<Rightarrow> real list \<Rightarrow> outputs \<Rightarrow> py_error + outputs" where
  "optional_outputs eq xt out =
     (case save_Ya eq xt out of
        Inl e \<Rightarrow> Inl e
      | Inr o1 \<Rightarrow>
     (case save_dYa_dx eq xt o1 of
        Inl e \<Rightarrow> Inl e
      | Inr o2 \<Rightarrow>
     (case save_Y_err eq o2 of
        Inl e \<Rightarrow> Inl e
      | Inr o3 \<Rightarrow> save_dY_dx_err eq o3)))"

text \<open>
  Lines 163 to 175: the parameter history is saved, then the trained solution and its
  derivative are computed at the training points from the parameters the loop ended with.
\<close>

definition trained_outputs :: "'g library \<Rightarrow> nat \<Rightarrow> real list \<Rightarrow> 'g tstate \<Rightarrow> outputs" where
  "trained_outputs lib H xt s =
     (let s1 = ensure_built lib H s;
          \<theta> = trainable_variables s1;
          N = map (model_call \<theta>) xt;
          dN = map (dN_dx \<theta>) xt
      in \<lparr>training_points_dat = xt,
          phist_dat = phist s,
          Yt_dat = map2 (\<lambda>x n. x * n) xt N,
          dYt_dx_dat = map2 (\<lambda>(x, d) n. x * d + n) (zip xt dN) N,
          Ya_dat = None, dYa_dx_dat = None, Y_err_dat = None, dY_dx_err_dat = None,
          final_losses = losses s,
          final_params = \<theta>,
          final_trace = trace s\<rparr>)"

text \<open>
  The script. \<^verbatim>\<open>xt.reshape((nt, 1))\<close> at line 89 raises \<^verbatim>\<open>ValueError\<close> when the grid does
  not have \<open>nt\<close> points; the run then ends there, with no output but the file of training
  points that line 88 has written. The equation object \<open>eq\<close> is the one line 92 loads.
\<close>

definition main :: "'g library \<Rightarrow> 'g \<Rightarrow> ode1ivp \<Rightarrow> config \<Rightarrow> py_error + outputs" where
  "main lib g eq cfg =
     (let xt = create_training_data lib (collocation_count cfg)
      in if length xt \<noteq> collocation_count cfg then Inl ValueError
         else optional_outputs eq xt
                (trained_outputs lib (hidden_units cfg) xt
                   (train_loop lib (hidden_units cfg) xt (epochs cfg) (init_state lib g cfg))))"

section \<open>The special values of float32\<close>

text \<open>
  The definitions above are in exact arithmetic. Float32 has values beyond the reals: an
  operation whose exact result is beyond the range gives an infinity, and the infinities
  and NaN propagate as IEEE 754 says: \<open>0 * inf\<close>, \<open>inf - inf\<close> and \<open>cos inf\<close> are NaN, an
  operation on NaN gives NaN, and a comparison with NaN is false. The type \<open>f32\<close> has these
  values. A finite result is the exact one: rounding is not modelled.
\<close>

datatype f32 = Finite real | PosInf | NegInf | NaN

definition f32_of_real :: "real \<Rightarrow> f32" where
  "f32_of_real r =
     (if 2 ^ 128 \<le> r then PosInf else if r \<le> - (2 ^ 128) then NegInf else Finite r)"


fun f32_add :: "f32 \<Rightarrow> f32 \<Rightarrow> f32" where
  "f32_add (Finite a) (Finite b) = f32_of_real (a + b)"
| "f32_add NaN b = NaN"
| "f32_add a NaN = NaN"
| "f32_add PosInf NegInf = NaN"
| "f32_add NegInf PosInf = NaN"
| "f32_add PosInf b = PosInf"
| "f32_add a PosInf = PosInf"
| "f32_add NegInf b = NegInf"
| "f32_add a NegInf = NegInf"


definition inf_times :: "real \<Rightarrow> f32" where
  "inf_times a = (if a = 0 then NaN else if 0 < a then PosInf else NegInf)"

fun f32_mul :: "f32 \<Rightarrow> f32 \<Rightarrow> f32" where
  "f32_mul (Finite a) (Finite b) = f32_of_real (a * b)"
| "f32_mul NaN b = NaN"
| "f32_mul a NaN = NaN"
| "f32_mul (Finite a) PosInf = inf_times a"
| "f32_mul PosInf (Finite b) = inf_times b"
| "f32_mul (Finite a) NegInf = inf_times (- a)"
| "f32_mul NegInf (Finite b) = inf_times (- b)"
| "f32_mul PosInf PosInf = PosInf"
| "f32_mul NegInf NegInf = PosInf"
| "f32_mul PosInf NegInf = NegInf"
| "f32_mul NegInf PosInf = NegInf"
















section \<open>Notions of the statements\<close>

text \<open>
  The state of the loop after \<open>k\<close> epochs of a run of the script, and the parameters the
  model has there: those with which the epoch numbered \<open>k\<close> (from 0) runs, and for
  \<open>k = epochs cfg\<close> those the loop ends with.
\<close>

definition state_after :: "'g library \<Rightarrow> 'g \<Rightarrow> config \<Rightarrow> nat \<Rightarrow> 'g tstate" where
  "state_after lib g cfg k =
     train_loop lib (hidden_units cfg) (create_training_grid lib (collocation_count cfg)) k
       (init_state lib g cfg)"

definition params_in_epoch :: "'g library \<Rightarrow> 'g \<Rightarrow> config \<Rightarrow> nat \<Rightarrow> params" where
  "params_in_epoch lib g cfg k =
     trainable_variables (ensure_built lib (hidden_units cfg) (state_after lib g cfg k))"

text \<open>The order of the statements in the body of the loop.\<close>

definition epoch_order :: "phase list" where
  "epoch_order = [FORWARD, RESIDUAL, LOSS, RECORD_LOSS, BACKWARD, RECORD_PARAMS, UPDATE]"

text \<open>
  The tensors of the script are float32. A real number of magnitude \<open>2 ^ 128\<close> or more is
  beyond every finite float32: where the exact loss is such a number, the script's \<^verbatim>\<open>L\<close>
  is \<^verbatim>\<open>inf\<close>.
\<close>

definition f32_finite :: "real \<Rightarrow> bool" where
  "f32_finite r = (\<bar>r\<bar> < 2 ^ 128)"

text \<open>The shape of the three tensors for \<open>H\<close> hidden units, and the states that have it.\<close>

definition shaped :: "nat \<Rightarrow> params \<Rightarrow> bool" where
  "shaped H \<theta> = (length (kernel1 \<theta>) = H \<and> length (bias1 \<theta>) = H \<and> length (kernel2 \<theta>) = H)"

definition well_shaped :: "nat \<Rightarrow> 'g tstate \<Rightarrow> bool" where
  "well_shaped H s =
     ((case weights s of None \<Rightarrow> True | Some \<theta> \<Rightarrow> shaped H \<theta>)
      \<and> (case moments (adam s) of None \<Rightarrow> True | Some (m, v) \<Rightarrow> shaped H m \<and> shaped H v))"

text \<open>The moment estimates an update starts from: zeros at the first update.\<close>

definition old_moments :: "optimizer \<Rightarrow> params \<Rightarrow> params \<times> params" where
  "old_moments opt \<theta> =
     (case moments opt of None \<Rightarrow> (zeros_like \<theta>, zeros_like \<theta>) | Some mv \<Rightarrow> mv)"

subsection \<open>Example inputs\<close>

text \<open>
  A library whose grid has the step 1/10 from 0 (for 11 points, the grid of the script)
  and whose generator always draws 1/2, so that the initial kernels are zero.
\<close>

definition lib0 :: "unit library" where
  "lib0 = \<lparr>create_training_grid = (\<lambda>n. map (\<lambda>k. real k / 10) [0..<n]),
           set_seed = (\<lambda>_. ()), uniform = (\<lambda>g. (1 / 2, g))\<rparr>"

text \<open>The equation of the script, with its analytical solution and derivative.\<close>

definition lagaris_02 :: ode1ivp where
  "lagaris_02 =
     \<lparr>ode_G = (\<lambda>x y dy. dy + y / 5 - exp (- x / 5) * cos x),
      ode_Ya = Some (\<lambda>x. exp (- x / 5) * sin x),
      ode_dYa_dx = Some (\<lambda>x. exp (- x / 5) * (cos x - sin x / 5))\<rparr>"

text \<open>Another equation, \<open>dy/dx = y\<close>, with an analytical solution and no derivative.\<close>

definition other_equation :: ode1ivp where
  "other_equation =
     \<lparr>ode_G = (\<lambda>x y dy. dy - y), ode_Ya = Some (\<lambda>x. 0), ode_dYa_dx = None\<rparr>"

text \<open>One hidden unit, one training point, one epoch, the learning rate of the script.\<close>

definition cfg1 :: config where
  "cfg1 = \<lparr>hidden_units = 1, collocation_count = 1, epochs = 1, learning_rate = 1 / 100,
           seed = 0\<rparr>"

text \<open>The same with two epochs and a learning rate of \<open>2 ^ 67\<close>.\<close>

definition cfg_big :: config where
  "cfg_big = \<lparr>hidden_units = 1, collocation_count = 1, epochs = 2, learning_rate = 2 ^ 67,
              seed = 0\<rparr>"

text \<open>What the script produces for \<open>cfg1\<close> with \<open>lib0\<close> and the equation of the script.\<close>

definition out1 :: outputs where
  "out1 =
     \<lparr>training_points_dat = [0],
      phist_dat = [[0, 0, 0]],
      Yt_dat = [0],
      dYt_dx_dat = [(1 / 100) / (1 + epsilon) * (1 / 2)],
      Ya_dat = Some [0],
      dYa_dx_dat = Some [1],
      Y_err_dat = Some [0],
      dY_dx_err_dat = Some [(1 / 100) / (1 + epsilon) * (1 / 2) - 1],
      final_losses = [1],
      final_params = \<lparr>kernel1 = [0], bias1 = [0], kernel2 = [(1 / 100) / (1 + epsilon)]\<rparr>,
      final_trace = [FORWARD, RESIDUAL, LOSS, RECORD_LOSS, BACKWARD, RECORD_PARAMS, UPDATE]\<rparr>"



text \<open>
  The configuration \<open>cfg1\<close> with the learning rate 0.
\<close>

definition cfg_still :: config where
  "cfg_still = \<lparr>hidden_units = 1, collocation_count = 1, epochs = 1, learning_rate = 0, seed = 0\<rparr>"

section \<open>The steps of an epoch\<close>

lemma ensure_built_frame [simp]:
  "losses (ensure_built lib H s) = losses s"
  "phist (ensure_built lib H s) = phist s"
  "trace (ensure_built lib H s) = trace s"
  "adam (ensure_built lib H s) = adam s"
  by (auto simp: ensure_built_def split: option.splits prod.splits)

lemma ensure_built_weights:
  "weights (ensure_built lib H s) = Some (trainable_variables (ensure_built lib H s))"
  by (auto simp: ensure_built_def trainable_variables_def split: option.splits prod.splits)

lemma ensure_built_Some: "weights s = Some \<theta> \<Longrightarrow> ensure_built lib H s = s"
  by (simp add: ensure_built_def)

lemma ensure_built_twice [simp]:
  "ensure_built lib H (ensure_built lib H s) = ensure_built lib H s"
  using ensure_built_weights ensure_built_Some by blast

lemma trainable_variables_update [simp]:
  "trainable_variables (s\<lparr>cur_N := a\<rparr>) = trainable_variables s"
  "trainable_variables (s\<lparr>cur_y := a\<rparr>) = trainable_variables s"
  "trainable_variables (s\<lparr>cur_dy_dx := a\<rparr>) = trainable_variables s"
  "trainable_variables (s\<lparr>cur_G := a\<rparr>) = trainable_variables s"
  "trainable_variables (s\<lparr>cur_L := b\<rparr>) = trainable_variables s"
  "trainable_variables (s\<lparr>cur_grad := c\<rparr>) = trainable_variables s"
  "trainable_variables (s\<lparr>trace := d\<rparr>) = trainable_variables s"
  "trainable_variables (s\<lparr>losses := e\<rparr>) = trainable_variables s"
  "trainable_variables (s\<lparr>phist := f\<rparr>) = trainable_variables s"
  "trainable_variables (s\<lparr>adam := h\<rparr>) = trainable_variables s"
  "trainable_variables (s\<lparr>weights := Some \<theta>\<rparr>) = \<theta>"
  by (simp_all add: trainable_variables_def)

lemma trial_y_batch:
  "map2 (\<lambda>x n. x * n) xs (map (model_call \<theta>) xs) = map (trial_y \<theta>) xs"
  by (induction xs) (simp_all add: trial_y_def)

lemma residual_batch:
  "map (\<lambda>(x, y, dy). residual_G x y dy) (zip xs (zip (map (trial_y \<theta>) xs) (map (dy_dx \<theta>) xs)))
   = map (\<lambda>x. residual_G x (trial_y \<theta> x) (dy_dx \<theta> x)) xs"
  by (induction xs) simp_all

lemmas step_defs = epoch_def update_step_def record_params_step_def backward_step_def
  record_loss_step_def loss_step_def residual_step_def forward_step_def

lemma epoch_losses:
  "losses (epoch lib H xs s) = losses s @ [loss_at xs (trainable_variables (ensure_built lib H s))]"
  by (simp add: step_defs Let_def loss_at_def trial_y_batch residual_batch split: prod.splits)

lemma epoch_phist:
  "phist (epoch lib H xs s) = phist s @ [hstack (trainable_variables (ensure_built lib H s))]"
  by (simp add: step_defs Let_def split: prod.splits)

lemma epoch_trace:
  "trace (epoch lib H xs s) = trace s @ epoch_order"
  by (simp add: step_defs epoch_order_def Let_def split: prod.splits)

lemma epoch_weights:
  "weights (epoch lib H xs s) =
     Some (snd (apply_gradients (adam s) (tape2_gradient xs (trainable_variables (ensure_built lib H s)))
                  (trainable_variables (ensure_built lib H s))))"
  by (simp add: step_defs Let_def split: prod.splits)

lemma epoch_adam:
  "adam (epoch lib H xs s) =
     fst (apply_gradients (adam s) (tape2_gradient xs (trainable_variables (ensure_built lib H s)))
                  (trainable_variables (ensure_built lib H s)))"
  by (simp add: step_defs Let_def split: prod.splits)

lemma epoch_rng: "rng (epoch lib H xs s) = rng (ensure_built lib H s)"
  by (simp add: step_defs Let_def split: prod.splits)

lemma epoch_built: "ensure_built lib H (epoch lib H xs s) = epoch lib H xs s"
  by (rule ensure_built_Some) (rule epoch_weights)

lemma train_loop_Suc: "train_loop lib H xs (Suc n) s = epoch lib H xs (train_loop lib H xs n s)"
  by (induction n arbitrary: s) simp_all

lemma train_losses:
  "losses (train_loop lib H xs n s) =
     losses s @ map (\<lambda>k. loss_at xs (trainable_variables (ensure_built lib H (train_loop lib H xs k s)))) [0..<n]"
proof (induction n)
  case 0 show ?case by simp
next
  case (Suc n)
  show ?case unfolding train_loop_Suc epoch_losses Suc.IH by simp
qed

lemma train_phist:
  "phist (train_loop lib H xs n s) =
     phist s @ map (\<lambda>k. hstack (trainable_variables (ensure_built lib H (train_loop lib H xs k s)))) [0..<n]"
proof (induction n)
  case 0 show ?case by simp
next
  case (Suc n)
  show ?case unfolding train_loop_Suc epoch_phist Suc.IH by simp
qed

lemma train_trace:
  "trace (train_loop lib H xs n s) = trace s @ concat (replicate n epoch_order)"
proof (induction n)
  case 0 show ?case by simp
next
  case (Suc n)
  have "replicate (Suc n) epoch_order = replicate n epoch_order @ [epoch_order]"
    by (simp add: replicate_append_same)
  then have "concat (replicate (Suc n) epoch_order) = concat (replicate n epoch_order) @ epoch_order"
    by (simp only: concat_append concat.simps append_Nil2)
  then show ?case unfolding train_loop_Suc epoch_trace Suc.IH by simp
qed

lemma train_iterations:
  "iterations (adam (train_loop lib H xs n s)) = iterations (adam s) + n"
proof (induction n)
  case 0 show ?case by simp
next
  case (Suc n)
  have "iterations (fst (apply_gradients opt g \<theta>)) = iterations opt + 1" for opt g \<theta>
    by (simp add: apply_gradients_def Let_def split: prod.splits)
  then show ?case unfolding train_loop_Suc epoch_adam using Suc.IH by simp
qed

lemma init_state_fields [simp]:
  "losses (init_state lib g cfg) = []" "phist (init_state lib g cfg) = []"
  "trace (init_state lib g cfg) = []" "weights (init_state lib g cfg) = None"
  "rng (init_state lib g cfg) = set_seed lib (seed cfg)"
  "adam (init_state lib g cfg) = \<lparr>opt_learning_rate = learning_rate cfg, iterations = 0, moments = None\<rparr>"
  by (simp_all add: init_state_def fresh_state_def build_model_def)

lemma trained_outputs_fields [simp]:
  "training_points_dat (trained_outputs lib H xt s) = xt"
  "phist_dat (trained_outputs lib H xt s) = phist s"
  "final_losses (trained_outputs lib H xt s) = losses s"
  "final_trace (trained_outputs lib H xt s) = trace s"
  "final_params (trained_outputs lib H xt s) = trainable_variables (ensure_built lib H s)"
  "Yt_dat (trained_outputs lib H xt s) = map (trial_y (trainable_variables (ensure_built lib H s))) xt"
  "Ya_dat (trained_outputs lib H xt s) = None"
  "dYa_dx_dat (trained_outputs lib H xt s) = None"
  "Y_err_dat (trained_outputs lib H xt s) = None"
  "dY_dx_err_dat (trained_outputs lib H xt s) = None"
  by (simp_all add: trained_outputs_def Let_def trial_y_batch)

lemma dYt_batch: "map2 (\<lambda>(x, d) n. x * d + n) (zip xs (map (dN_dx \<theta>) xs)) (map (model_call \<theta>) xs) = map (dy_dx \<theta>) xs"
  by (induction xs) (simp_all add: dy_dx_def)

lemma trained_outputs_dYt [simp]:
  "dYt_dx_dat (trained_outputs lib H xt s) = map (dy_dx (trainable_variables (ensure_built lib H s))) xt"
  by (simp add: trained_outputs_def Let_def dYt_batch)

lemma comprehension_call: "comprehension (py_call (Some f)) xs = Inr (map f xs)"
  by (induction xs) (simp_all add: py_call_def)

lemma optional_outputs_eq:
  "optional_outputs eq xt out =
     Inr (out\<lparr>Ya_dat := (case ode_Ya eq of None \<Rightarrow> Ya_dat out | Some f \<Rightarrow> Some (map f xt)),
              dYa_dx_dat := (case ode_dYa_dx eq of None \<Rightarrow> dYa_dx_dat out | Some f \<Rightarrow> Some (map f xt)),
              Y_err_dat := (case ode_Ya eq of None \<Rightarrow> Y_err_dat out | Some f \<Rightarrow> Some (map2 (\<lambda>a b. a - b) (Yt_dat out) (map f xt))),
              dY_dx_err_dat := (case ode_dYa_dx eq of None \<Rightarrow> dY_dx_err_dat out | Some f \<Rightarrow> Some (map2 (\<lambda>a b. a - b) (dYt_dx_dat out) (map f xt)))\<rparr>)"
  by (cases "ode_Ya eq"; cases "ode_dYa_dx eq")
     (simp_all add: optional_outputs_def save_Ya_def save_dYa_dx_def save_Y_err_def save_dY_dx_err_def
        truthy_def comprehension_call)

section \<open>The script as a whole\<close>

lemma main_eq:
  "main lib g eq cfg =
     (if length (create_training_grid lib (collocation_count cfg)) \<noteq> collocation_count cfg
      then Inl ValueError
      else optional_outputs eq (create_training_grid lib (collocation_count cfg))
             (trained_outputs lib (hidden_units cfg) (create_training_grid lib (collocation_count cfg))
                (state_after lib g cfg (epochs cfg))))"
  by (simp add: main_def state_after_def create_training_data_def Let_def)

lemma length_draws: "draws d n g = (rs, g') \<Longrightarrow> length rs = n"
  by (induction n arbitrary: g rs g') (auto simp: Let_def split: prod.splits)

lemma shaped_build: "shaped H (fst (build_weights lib H g))"
  by (auto simp: shaped_def build_weights_def glorot_uniform_def Let_def split: prod.splits
        dest: length_draws)

lemma shaped_ensure_built:
  "well_shaped H s \<Longrightarrow> shaped H (trainable_variables (ensure_built lib H s))"
  using shaped_build [of H lib "rng s"]
  by (auto simp: well_shaped_def ensure_built_def trainable_variables_def split: option.splits prod.splits)

lemma length_units: "shaped H \<theta> \<Longrightarrow> length (units \<theta>) = H"
  by (simp add: shaped_def units_def)

lemma shaped_gradient: "shaped H \<theta> \<Longrightarrow> shaped H (tape2_gradient xs \<theta>)"
  by (simp add: shaped_def tape2_gradient_def dL_d_def units_def)

lemma length_adam_tensor:
  "length ms = H \<Longrightarrow> length vs = H \<Longrightarrow> length gs = H \<Longrightarrow> length ps = H \<Longrightarrow>
   length (fst (adam_tensor lr t ms vs gs ps)) = H
   \<and> length (fst (snd (adam_tensor lr t ms vs gs ps))) = H
   \<and> length (snd (snd (adam_tensor lr t ms vs gs ps))) = H"
  by (simp add: adam_tensor_def Let_def)

lemma shaped_zeros_like: "shaped H \<theta> \<Longrightarrow> shaped H (zeros_like \<theta>)"
  by (simp add: shaped_def zeros_like_def)


lemma apply_gradients_eq:
  "apply_gradients opt grad \<theta> =
     (let m0 = fst (old_moments opt \<theta>); v0 = snd (old_moments opt \<theta>);
          t = iterations opt + 1; lr = opt_learning_rate opt;
          a1 = adam_tensor lr t (kernel1 m0) (kernel1 v0) (kernel1 grad) (kernel1 \<theta>);
          a2 = adam_tensor lr t (bias1 m0) (bias1 v0) (bias1 grad) (bias1 \<theta>);
          a3 = adam_tensor lr t (kernel2 m0) (kernel2 v0) (kernel2 grad) (kernel2 \<theta>)
      in (opt\<lparr>iterations := t,
               moments := Some (\<lparr>kernel1 = fst a1, bias1 = fst a2, kernel2 = fst a3\<rparr>,
                                \<lparr>kernel1 = fst (snd a1), bias1 = fst (snd a2), kernel2 = fst (snd a3)\<rparr>)\<rparr>,
          \<lparr>kernel1 = snd (snd a1), bias1 = snd (snd a2), kernel2 = snd (snd a3)\<rparr>))"
  by (simp add: apply_gradients_def old_moments_def Let_def split_beta)

lemma shaped_apply_gradients:
  assumes "shaped H \<theta>" "shaped H grad"
    and "case moments opt of None \<Rightarrow> True | Some (m, v) \<Rightarrow> shaped H m \<and> shaped H v"
  shows "shaped H (snd (apply_gradients opt grad \<theta>))
         \<and> (case moments (fst (apply_gradients opt grad \<theta>)) of None \<Rightarrow> True | Some (m, v) \<Rightarrow> shaped H m \<and> shaped H v)"
proof -
  have s0: "shaped H (fst (old_moments opt \<theta>))" "shaped H (snd (old_moments opt \<theta>))"
    using assms(1,3) shaped_zeros_like by (auto simp: old_moments_def split: option.splits)
  have k1: "length (kernel1 (fst (old_moments opt \<theta>))) = H" "length (kernel1 (snd (old_moments opt \<theta>))) = H"
       "length (kernel1 grad) = H" "length (kernel1 \<theta>) = H"
    and b1: "length (bias1 (fst (old_moments opt \<theta>))) = H" "length (bias1 (snd (old_moments opt \<theta>))) = H"
       "length (bias1 grad) = H" "length (bias1 \<theta>) = H"
    and k2: "length (kernel2 (fst (old_moments opt \<theta>))) = H" "length (kernel2 (snd (old_moments opt \<theta>))) = H"
       "length (kernel2 grad) = H" "length (kernel2 \<theta>) = H"
    using s0 assms(1,2) by (simp_all add: shaped_def)
  show ?thesis
    unfolding apply_gradients_eq Let_def
    using length_adam_tensor [OF k1] length_adam_tensor [OF b1] length_adam_tensor [OF k2]
    by (simp add: shaped_def)
qed

lemma well_shaped_epoch: "well_shaped H s \<Longrightarrow> well_shaped H (epoch lib H xs s)"
proof -
  assume ws: "well_shaped H s"
  let ?\<theta> = "trainable_variables (ensure_built lib H s)"
  have sh: "shaped H ?\<theta>" using ws by (rule shaped_ensure_built)
  have mo: "case moments (adam s) of None \<Rightarrow> True | Some (m, v) \<Rightarrow> shaped H m \<and> shaped H v"
    using ws by (simp add: well_shaped_def)
  from shaped_apply_gradients [OF sh shaped_gradient [OF sh] mo]
  show ?thesis
    by (simp add: well_shaped_def epoch_weights epoch_adam)
qed

lemma well_shaped_train: "well_shaped H s \<Longrightarrow> well_shaped H (train_loop lib H xs n s)"
  by (induction n arbitrary: s) (simp_all add: well_shaped_epoch)

lemma well_shaped_init: "well_shaped H (init_state lib g cfg)"
  by (simp add: well_shaped_def)

lemma length_hstack: "shaped H \<theta> \<Longrightarrow> length (hstack \<theta>) = 3 * H"
  by (simp add: shaped_def hstack_def)

section \<open>The run, epoch by epoch\<close>

lemma state_after_losses:
  "losses (state_after lib g cfg n) =
     map (\<lambda>k. loss_at (create_training_grid lib (collocation_count cfg)) (params_in_epoch lib g cfg k)) [0..<n]"
  by (simp add: state_after_def params_in_epoch_def train_losses)

lemma state_after_phist:
  "phist (state_after lib g cfg n) = map (\<lambda>k. hstack (params_in_epoch lib g cfg k)) [0..<n]"
  by (simp add: state_after_def params_in_epoch_def train_phist)

lemma state_after_trace:
  "trace (state_after lib g cfg n) = concat (replicate n epoch_order)"
  by (simp add: state_after_def train_trace)

lemma shaped_params_in_epoch: "shaped (hidden_units cfg) (params_in_epoch lib g cfg k)"
  unfolding params_in_epoch_def state_after_def
  by (intro shaped_ensure_built well_shaped_train well_shaped_init)

lemma main_Inr:
  assumes "main lib g eq cfg = Inr out"
  shows "length (create_training_grid lib (collocation_count cfg)) = collocation_count cfg"
    and "training_points_dat out = create_training_grid lib (collocation_count cfg)"
    and "phist_dat out = map (\<lambda>k. hstack (params_in_epoch lib g cfg k)) [0..<epochs cfg]"
    and "final_losses out =
           map (\<lambda>k. loss_at (create_training_grid lib (collocation_count cfg)) (params_in_epoch lib g cfg k))
             [0..<epochs cfg]"
    and "final_trace out = concat (replicate (epochs cfg) epoch_order)"
    and "final_params out = params_in_epoch lib g cfg (epochs cfg)"
    and "Yt_dat out = map (trial_y (params_in_epoch lib g cfg (epochs cfg))) (create_training_grid lib (collocation_count cfg))"
    and "dYt_dx_dat out = map (dy_dx (params_in_epoch lib g cfg (epochs cfg))) (create_training_grid lib (collocation_count cfg))"
    and "Ya_dat out = map_option (\<lambda>f. map f (create_training_grid lib (collocation_count cfg))) (ode_Ya eq)"
    and "dYa_dx_dat out = map_option (\<lambda>f. map f (create_training_grid lib (collocation_count cfg))) (ode_dYa_dx eq)"
    and "(Y_err_dat out = None) = (ode_Ya eq = None)"
    and "(dY_dx_err_dat out = None) = (ode_dYa_dx eq = None)"
proof -
  let ?xt = "create_training_grid lib (collocation_count cfg)"
  show len: "length ?xt = collocation_count cfg"
    using assms by (simp add: main_eq split: if_splits)
  have out: "optional_outputs eq ?xt (trained_outputs lib (hidden_units cfg) ?xt (state_after lib g cfg (epochs cfg))) = Inr out"
    using assms len by (simp add: main_eq)
  note o = out [unfolded optional_outputs_eq, simplified, symmetric]
  show "training_points_dat out = ?xt" by (subst o) simp
  show "phist_dat out = map (\<lambda>k. hstack (params_in_epoch lib g cfg k)) [0..<epochs cfg]"
    by (subst o) (simp add: state_after_phist)
  show "final_losses out = map (\<lambda>k. loss_at ?xt (params_in_epoch lib g cfg k)) [0..<epochs cfg]"
    by (subst o) (simp add: state_after_losses)
  show "final_trace out = concat (replicate (epochs cfg) epoch_order)"
    by (subst o) (simp add: state_after_trace)
  show "final_params out = params_in_epoch lib g cfg (epochs cfg)"
    by (subst o) (simp add: params_in_epoch_def)
  show "Yt_dat out = map (trial_y (params_in_epoch lib g cfg (epochs cfg))) ?xt"
    by (subst o) (simp add: params_in_epoch_def)
  show "dYt_dx_dat out = map (dy_dx (params_in_epoch lib g cfg (epochs cfg))) ?xt"
    by (subst o) (simp add: params_in_epoch_def)
  show "Ya_dat out = map_option (\<lambda>f. map f ?xt) (ode_Ya eq)"
    by (subst o) (simp split: option.splits)
  show "dYa_dx_dat out = map_option (\<lambda>f. map f ?xt) (ode_dYa_dx eq)"
    by (subst o) (simp split: option.splits)
  show "(Y_err_dat out = None) = (ode_Ya eq = None)"
    by (subst o) (simp split: option.splits)
  show "(dY_dx_err_dat out = None) = (ode_dYa_dx eq = None)"
    by (subst o) (simp split: option.splits)
qed

lemma main_returns:
  assumes "length (create_training_grid lib (collocation_count cfg)) = collocation_count cfg"
  shows "\<exists>out. main lib g eq cfg = Inr out"
  using assms by (simp add: main_eq optional_outputs_eq)

section \<open>The example run\<close>

lemma lib0_sel [simp]: "set_seed lib0 = (\<lambda>_. ())" "uniform lib0 = (\<lambda>g. (1 / 2, g))"
  "create_training_grid lib0 = (\<lambda>n. map (\<lambda>k. real k / 10) [0..<n])"
  by (simp_all add: lib0_def)

lemma draws_one: "draws d (Suc 0) g = ([fst (d g)], snd (d g))"
  by (simp add: Let_def split: prod.splits)

lemma build_lib0: "build_weights lib0 (Suc 0) g = (\<lparr>kernel1 = [0], bias1 = [0], kernel2 = [0]\<rparr>, g)"
  by (simp add: build_weights_def glorot_uniform_def draws_one Let_def)

lemma params_first_lib0:
  "hidden_units cfg = Suc 0 \<Longrightarrow> params_in_epoch lib0 g cfg 0 = \<lparr>kernel1 = [0], bias1 = [0], kernel2 = [0]\<rparr>"
  by (simp add: params_in_epoch_def state_after_def ensure_built_def trainable_variables_def build_lib0)

lemma sigmoid_0: "sigmoid 0 = 1 / 2" by (simp add: sigmoid_def)

lemma model_call_one: "model_call \<lparr>kernel1 = [a], bias1 = [b], kernel2 = [c]\<rparr> x = c * sigmoid (a * x + b)"
  by (simp add: model_call_def units_def)

lemma loss_one_zero:
  "loss_at [0] \<lparr>kernel1 = [a], bias1 = [0], kernel2 = [c]\<rparr> = (c / 2 - 1) ^ 2"
  by (simp add: loss_at_def reduce_sum_sq_def residual_G_def trial_y_def dy_dx_def model_call_one sigmoid_0)

lemma gradient_zero_params:
  "tape2_gradient [0] \<lparr>kernel1 = [0], bias1 = [0], kernel2 = [0]\<rparr> = \<lparr>kernel1 = [0], bias1 = [0], kernel2 = [-1]\<rparr>"
  by (simp add: tape2_gradient_def dL_d_def dG_dw_def dG_du_def dG_dv_def residual_G_def trial_y_def
      dy_dx_def model_call_one units_def sigmoid_0 dsigmoid_def d2sigmoid_def)

lemma adam_first_step: "adam_tensor lr (Suc 0) [0] [0] [-1] [0] = ([-1/10], [1/1000], [lr / (1 + epsilon)])"
  by (simp add: adam_tensor_def beta1_def beta2_def Let_def)

lemma adam_zero_gradient: "adam_tensor lr (Suc 0) [0] [0] [0] [0] = ([0], [0], [0])"
  by (simp add: adam_tensor_def beta1_def beta2_def Let_def)

lemma apply_first:
  "snd (apply_gradients \<lparr>opt_learning_rate = lr, iterations = 0, moments = None\<rparr>
    \<lparr>kernel1 = [0], bias1 = [0], kernel2 = [-1]\<rparr> \<lparr>kernel1 = [0], bias1 = [0], kernel2 = [0]\<rparr>)
   = \<lparr>kernel1 = [0], bias1 = [0], kernel2 = [lr / (1 + epsilon)]\<rparr>"
  by (simp add: apply_gradients_eq old_moments_def zeros_like_def adam_first_step adam_zero_gradient)

lemma params_step:
  "params_in_epoch lib g cfg (Suc k) =
     snd (apply_gradients (adam (state_after lib g cfg k))
            (tape2_gradient (create_training_grid lib (collocation_count cfg)) (params_in_epoch lib g cfg k))
            (params_in_epoch lib g cfg k))"
  unfolding params_in_epoch_def state_after_def train_loop_Suc epoch_built
  by (simp add: trainable_variables_def epoch_weights)

lemma params_second_lib0:
  "hidden_units cfg = Suc 0 \<Longrightarrow> collocation_count cfg = Suc 0 \<Longrightarrow>
   params_in_epoch lib0 g cfg (Suc 0) = \<lparr>kernel1 = [0], bias1 = [0], kernel2 = [learning_rate cfg / (1 + epsilon)]\<rparr>"
  by (simp add: params_step params_first_lib0 gradient_zero_params)
     (simp add: state_after_def apply_first)

lemma main_cfg1: "main lib0 () lagaris_02 cfg1 = Inr out1"
proof -
  have c: "hidden_units cfg1 = Suc 0" "collocation_count cfg1 = Suc 0" "epochs cfg1 = Suc 0"
    "learning_rate cfg1 = 1 / 100"
    by (simp_all add: cfg1_def)
  have p1: "trainable_variables (ensure_built lib0 (Suc 0) (state_after lib0 () cfg1 (Suc 0)))
      = \<lparr>kernel1 = [0], bias1 = [0], kernel2 = [(1 / 100) / (1 + epsilon)]\<rparr>"
    using params_second_lib0 [OF c(1,2), of "()"] by (simp add: params_in_epoch_def c)
  have p0: "trainable_variables (ensure_built lib0 (Suc 0) (init_state lib0 () cfg1))
      = \<lparr>kernel1 = [0], bias1 = [0], kernel2 = [0]\<rparr>"
    using params_first_lib0 [OF c(1), of "()"] by (simp add: params_in_epoch_def state_after_def c)
  have st: "state_after lib0 () cfg1 (Suc 0) = epoch lib0 (Suc 0) [0] (init_state lib0 () cfg1)"
    by (simp add: state_after_def c)
  have h: "phist (state_after lib0 () cfg1 (Suc 0)) = [[0, 0, 0]]"
    by (simp add: st epoch_phist p0 hstack_def)
  have l: "losses (state_after lib0 () cfg1 (Suc 0)) = [1]"
    by (simp add: st epoch_losses p0 loss_one_zero)
  have t: "trace (state_after lib0 () cfg1 (Suc 0)) = epoch_order"
    by (simp add: st epoch_trace)
  have m: "main lib0 () lagaris_02 cfg1 =
      optional_outputs lagaris_02 [0] (trained_outputs lib0 (Suc 0) [0] (state_after lib0 () cfg1 (Suc 0)))"
    by (simp add: main_eq c)
  have tr: "trained_outputs lib0 (Suc 0) [0] (state_after lib0 () cfg1 (Suc 0)) =
      \<lparr>training_points_dat = [0], phist_dat = [[0, 0, 0]], Yt_dat = [0],
       dYt_dx_dat = [(1 / 100) / (1 + epsilon) * (1 / 2)],
       Ya_dat = None, dYa_dx_dat = None, Y_err_dat = None, dY_dx_err_dat = None,
       final_losses = [1],
       final_params = \<lparr>kernel1 = [0], bias1 = [0], kernel2 = [(1 / 100) / (1 + epsilon)]\<rparr>,
       final_trace = epoch_order\<rparr>"
    by (simp add: trained_outputs_def Let_def p1 h l t model_call_one dN_dx_def units_def sigmoid_0)
  show ?thesis
    unfolding m tr optional_outputs_eq
    by (simp add: out1_def lagaris_02_def epoch_order_def)
qed

lemma cfg1_sel [simp]:
  "hidden_units cfg1 = Suc 0" "collocation_count cfg1 = Suc 0" "epochs cfg1 = Suc 0"
  "learning_rate cfg1 = 1 / 100" "seed cfg1 = 0"
  by (simp_all add: cfg1_def)

lemma cfg_big_sel [simp]:
  "hidden_units cfg_big = Suc 0" "collocation_count cfg_big = Suc 0" "epochs cfg_big = Suc (Suc 0)"
  "learning_rate cfg_big = 2 ^ 67" "seed cfg_big = 0"
  by (simp_all add: cfg_big_def)

lemma epsilon_pos: "0 < epsilon" by (simp add: epsilon_def)

lemma main_other_cfg1:
  "\<not> isl (main lib0 () other_equation cfg1) \<and> final_losses (projr (main lib0 () other_equation cfg1)) = [1]"
proof -
  obtain out where out: "main lib0 () other_equation cfg1 = Inr out"
    using main_returns [of lib0 cfg1 "()" other_equation] by auto
  show ?thesis
    by (simp add: out main_Inr(4) [OF out] params_first_lib0 loss_one_zero)
qed

lemma big_loss: "\<not> f32_finite ((2 ^ 67 / (1 + epsilon) / 2 - 1) ^ 2)"
proof -
  define c :: real where "c = 2 ^ 67 / (1 + epsilon)"
  have e: "1 + epsilon \<le> 2" "0 < 1 + epsilon" by (simp_all add: epsilon_def)
  have "(2::real) ^ 67 / 2 \<le> 2 ^ 67 / (1 + epsilon)"
    using e by (intro divide_left_mono) simp_all
  then have c66: "2 ^ 66 \<le> c" by (simp add: c_def)
  have "(2::real) ^ 64 \<le> 2 ^ 66 / 2 - 1" by simp
  also have "\<dots> \<le> c / 2 - 1" using c66 by simp
  finally have "(2::real) ^ 64 \<le> c / 2 - 1" .
  then have "((2::real) ^ 64) ^ 2 \<le> (c / 2 - 1) ^ 2"
    by (intro power_mono) simp_all
  moreover have "((2::real) ^ 64) ^ 2 = 2 ^ 128" by simp
  ultimately have "(2::real) ^ 128 \<le> (c / 2 - 1) ^ 2" by simp
  then have "\<not> \<bar>(c / 2 - 1) ^ 2\<bar> < 2 ^ 128" by simp
  then show ?thesis unfolding f32_finite_def c_def .
qed

lemma epoch_cur_grad:
  "cur_grad (epoch lib H xs s) = tape2_gradient xs (trainable_variables (ensure_built lib H s))"
  by (simp add: step_defs Let_def split: prod.splits)

lemma optional_outputs_ode_G [simp]:
  "optional_outputs (eq\<lparr>ode_G := h\<rparr>) xt out = optional_outputs eq xt out"
  by (simp add: optional_outputs_eq)

section \<open>Arithmetic with the special values\<close>

lemma f32_mul_zero: "f32_mul (Finite 0) n = (case n of Finite a \<Rightarrow> Finite 0 | PosInf \<Rightarrow> NaN | NegInf \<Rightarrow> NaN | NaN \<Rightarrow> NaN)"
  by (cases n) (simp_all add: f32_of_real_def inf_times_def)

lemma f32_add_NaN [simp]: "f32_add a NaN = NaN"
  by (cases a) simp_all

lemma f32_mul_NaN [simp]: "f32_mul a NaN = NaN"
  by (cases a) simp_all


lemma add_nan: "f32_add a b = NaN \<longleftrightarrow> a = NaN \<or> b = NaN \<or> (a = PosInf \<and> b = NegInf) \<or> (a = NegInf \<and> b = PosInf)"
  by (cases a; cases b) (simp_all add: f32_of_real_def)




lemma cfg_still_sel [simp]:
  "hidden_units cfg_still = Suc 0" "collocation_count cfg_still = Suc 0" "epochs cfg_still = Suc 0"
  "learning_rate cfg_still = 0" "seed cfg_still = 0"
  by (simp_all add: cfg_still_def)

section \<open>The derivatives of automatic differentiation\<close>

lemma sigmoid_denominator: "1 + exp (- z) \<noteq> (0::real)"
  using exp_gt_zero [of "- z"] by (simp add: add_pos_pos less_imp_neq [THEN not_sym])

lemma DERIV_sigmoid [derivative_intros]:
  assumes "(f has_field_derivative f') (at t)"
  shows "((\<lambda>t. sigmoid (f t)) has_field_derivative dsigmoid (f t) * f') (at t)"
proof -
  have "((\<lambda>t. 1 / (1 + exp (- f t))) has_field_derivative
          (exp (- f t) / (1 + exp (- f t)) ^ 2) * f') (at t)"
    using sigmoid_denominator [of "f t"]
    by (auto intro!: derivative_eq_intros assms simp: power2_eq_square)
  moreover have "exp (- f t) / (1 + exp (- f t)) ^ 2 = dsigmoid (f t)"
    using sigmoid_denominator [of "f t"]
    by (simp add: dsigmoid_def sigmoid_def power2_eq_square field_simps)
  ultimately show ?thesis
    by (simp add: sigmoid_def [abs_def])
qed

lemma DERIV_dsigmoid [derivative_intros]:
  assumes "(f has_field_derivative f') (at t)"
  shows "((\<lambda>t. dsigmoid (f t)) has_field_derivative d2sigmoid (f t) * f') (at t)"
  unfolding dsigmoid_def [abs_def] d2sigmoid_def
  by (auto intro!: derivative_eq_intros assms simp: dsigmoid_def algebra_simps)

lemma DERIV_sum_list:
  assumes "\<And>a. a \<in> set as \<Longrightarrow> ((\<lambda>x. f a x) has_field_derivative f' a) (at x)"
  shows "((\<lambda>x. \<Sum>a \<leftarrow> as. f a x) has_field_derivative (\<Sum>a \<leftarrow> as. f' a)) (at (x::real))"
  using assms
proof (induction as)
  case Nil
  show ?case by simp
next
  case (Cons a as)
  then show ?case by (auto intro!: derivative_eq_intros)
qed

text \<open>
  The value taken for \<^verbatim>\<open>tape.gradient(N, xtv)\<close> is the derivative of the network output in
  its input.
\<close>

theorem model_derivative: "(model_call \<theta> has_field_derivative dN_dx \<theta> x) (at x)"
  unfolding model_call_def [abs_def] dN_dx_def
  by (rule DERIV_sum_list) (auto intro!: derivative_eq_intros simp: dsigmoid_def)

text \<open>
  The value taken for \<^verbatim>\<open>tape1.gradient(y, x)\<close> is the derivative of the trial solution in
  \<open>x\<close>.
\<close>

theorem trial_solution_derivative: "(trial_y \<theta> has_field_derivative dy_dx \<theta> x) (at x)"
  unfolding trial_y_def [abs_def] dy_dx_def
  by (auto intro!: derivative_eq_intros model_derivative)

lemma sum_list_combine:
  "(\<Sum>a \<leftarrow> as. f a + x * g a + x * f a / 5) =
     (\<Sum>a \<leftarrow> as. f a) + x * (\<Sum>a \<leftarrow> as. g a) + x * (\<Sum>a \<leftarrow> as. f a) / (5::real)"
  by (induction as) (simp_all add: algebra_simps)

lemma residual_as_sum:
  "residual_G x (trial_y \<theta> x) (dy_dx \<theta> x) = (\<Sum>unit \<leftarrow> units \<theta>. unit_G x unit) - exp (- x / 5) * cos x"
proof -
  let ?f = "\<lambda>(wi, ui, vi). vi * sigmoid (wi * x + ui)"
  let ?g = "\<lambda>(wi, ui, vi). vi * (wi * (sigmoid (wi * x + ui) * (1 - sigmoid (wi * x + ui))))"
  have "unit_G x = (\<lambda>a. ?f a + x * ?g a + x * ?f a / 5)"
    by (auto simp: unit_G_def dsigmoid_def fun_eq_iff)
  then have "(\<Sum>unit \<leftarrow> units \<theta>. unit_G x unit) =
      (\<Sum>a \<leftarrow> units \<theta>. ?f a) + x * (\<Sum>a \<leftarrow> units \<theta>. ?g a) + x * (\<Sum>a \<leftarrow> units \<theta>. ?f a) / 5"
    by (simp only: sum_list_combine)
  then show ?thesis
    by (simp add: residual_G_def trial_y_def dy_dx_def model_call_def dN_dx_def)
qed

lemma sum_list_update:
  "j < length us \<Longrightarrow> (\<Sum>a \<leftarrow> us[j := b]. (h a :: real)) = (\<Sum>a \<leftarrow> us. h a) - h (us ! j) + h b"
  by (induction us arbitrary: j) (auto split: nat.splits)

lemma units_nth:
  "shaped H \<theta> \<Longrightarrow> j < H \<Longrightarrow> units \<theta> ! j = (kernel1 \<theta> ! j, bias1 \<theta> ! j, kernel2 \<theta> ! j)"
  by (simp add: shaped_def units_def)

lemma units_update_kernel1:
  "shaped H \<theta> \<Longrightarrow> j < H \<Longrightarrow>
   units (\<theta>\<lparr>kernel1 := (kernel1 \<theta>)[j := t]\<rparr>) = (units \<theta>)[j := (t, bias1 \<theta> ! j, kernel2 \<theta> ! j)]"
  by (simp add: shaped_def units_def list_eq_iff_nth_eq nth_list_update)

lemma units_update_bias1:
  "shaped H \<theta> \<Longrightarrow> j < H \<Longrightarrow>
   units (\<theta>\<lparr>bias1 := (bias1 \<theta>)[j := t]\<rparr>) = (units \<theta>)[j := (kernel1 \<theta> ! j, t, kernel2 \<theta> ! j)]"
  by (simp add: shaped_def units_def list_eq_iff_nth_eq nth_list_update)

lemma units_update_kernel2:
  "shaped H \<theta> \<Longrightarrow> j < H \<Longrightarrow>
   units (\<theta>\<lparr>kernel2 := (kernel2 \<theta>)[j := t]\<rparr>) = (units \<theta>)[j := (kernel1 \<theta> ! j, bias1 \<theta> ! j, t)]"
  by (simp add: shaped_def units_def list_eq_iff_nth_eq nth_list_update)

lemma DERIV_unit_G_w:
  "((\<lambda>t. unit_G x (t, u, v)) has_field_derivative dG_dw x (w, u, v)) (at w)"
  unfolding unit_G_def dG_dw_def
  by (auto intro!: derivative_eq_intros simp: algebra_simps)

lemma DERIV_unit_G_u:
  "((\<lambda>t. unit_G x (w, t, v)) has_field_derivative dG_du x (w, u, v)) (at u)"
  unfolding unit_G_def dG_du_def
  by (auto intro!: derivative_eq_intros simp: algebra_simps)

lemma DERIV_unit_G_v:
  "((\<lambda>t. unit_G x (w, u, t)) has_field_derivative dG_dv x (w, u, v)) (at v)"
  unfolding unit_G_def dG_dv_def
  by (auto intro!: derivative_eq_intros simp: algebra_simps)

lemma DERIV_loss_coordinate:
  assumes upd: "\<And>t. units (\<theta>' t) = (units \<theta>)[j := c t]"
    and j: "j < length (units \<theta>)"
    and a: "c a = units \<theta> ! j"
    and d: "\<And>x. ((\<lambda>t. unit_G x (c t)) has_field_derivative dG x (units \<theta> ! j)) (at a)"
  shows "((\<lambda>t. loss_at xs (\<theta>' t)) has_field_derivative dL_d dG xs \<theta> ! j) (at a)"
proof -
  let ?R = "\<lambda>x. residual_G x (trial_y \<theta> x) (dy_dx \<theta> x)"
  have R: "residual_G x (trial_y (\<theta>' t) x) (dy_dx (\<theta>' t) x) = ?R x - unit_G x (units \<theta> ! j) + unit_G x (c t)"
    for x t
    by (simp add: residual_as_sum upd sum_list_update [OF j])
  have loss: "(\<lambda>t. loss_at xs (\<theta>' t)) = (\<lambda>t. \<Sum>x \<leftarrow> xs. (?R x - unit_G x (units \<theta> ! j) + unit_G x (c t)) ^ 2)"
    by (simp add: loss_at_def reduce_sum_sq_def R comp_def)
  have each: "((\<lambda>t. (?R x - unit_G x (units \<theta> ! j) + unit_G x (c t)) ^ 2) has_field_derivative
               2 * ?R x * dG x (units \<theta> ! j)) (at a)" for x
    by (auto intro!: derivative_eq_intros d simp: a)
  have "((\<lambda>t. \<Sum>x \<leftarrow> xs. (?R x - unit_G x (units \<theta> ! j) + unit_G x (c t)) ^ 2) has_field_derivative
          (\<Sum>x \<leftarrow> xs. 2 * ?R x * dG x (units \<theta> ! j))) (at a)"
    by (rule DERIV_sum_list) (rule each)
  then show ?thesis
    unfolding loss using j by (simp add: dL_d_def)
qed

text \<open>
  The value taken for \<^verbatim>\<open>tape2.gradient(L, model.trainable_variables)\<close> is the gradient of
  the loss: its entry for a parameter is the derivative of the loss in that parameter, the
  others held fixed.
\<close>

theorem tape2_gradient_is_gradient:
  assumes "shaped H \<theta>" and "j < H"
  shows "((\<lambda>t. loss_at xs (\<theta>\<lparr>kernel1 := (kernel1 \<theta>)[j := t]\<rparr>)) has_field_derivative
            kernel1 (tape2_gradient xs \<theta>) ! j) (at (kernel1 \<theta> ! j))
       \<and> ((\<lambda>t. loss_at xs (\<theta>\<lparr>bias1 := (bias1 \<theta>)[j := t]\<rparr>)) has_field_derivative
            bias1 (tape2_gradient xs \<theta>) ! j) (at (bias1 \<theta> ! j))
       \<and> ((\<lambda>t. loss_at xs (\<theta>\<lparr>kernel2 := (kernel2 \<theta>)[j := t]\<rparr>)) has_field_derivative
            kernel2 (tape2_gradient xs \<theta>) ! j) (at (kernel2 \<theta> ! j))"
proof -
  have j: "j < length (units \<theta>)" using assms by (simp add: length_units)
  note n = units_nth [OF assms]
  have 1: "((\<lambda>t. loss_at xs (\<theta>\<lparr>kernel1 := (kernel1 \<theta>)[j := t]\<rparr>)) has_field_derivative
            dL_d dG_dw xs \<theta> ! j) (at (kernel1 \<theta> ! j))"
    by (rule DERIV_loss_coordinate [where c = "\<lambda>t. (t, bias1 \<theta> ! j, kernel2 \<theta> ! j)"])
       (simp_all add: units_update_kernel1 [OF assms] j n DERIV_unit_G_w)
  have 2: "((\<lambda>t. loss_at xs (\<theta>\<lparr>bias1 := (bias1 \<theta>)[j := t]\<rparr>)) has_field_derivative
            dL_d dG_du xs \<theta> ! j) (at (bias1 \<theta> ! j))"
    by (rule DERIV_loss_coordinate [where c = "\<lambda>t. (kernel1 \<theta> ! j, t, kernel2 \<theta> ! j)"])
       (simp_all add: units_update_bias1 [OF assms] j n DERIV_unit_G_u)
  have 3: "((\<lambda>t. loss_at xs (\<theta>\<lparr>kernel2 := (kernel2 \<theta>)[j := t]\<rparr>)) has_field_derivative
            dL_d dG_dv xs \<theta> ! j) (at (kernel2 \<theta> ! j))"
    by (rule DERIV_loss_coordinate [where c = "\<lambda>t. (kernel1 \<theta> ! j, bias1 \<theta> ! j, t)"])
       (simp_all add: units_update_kernel2 [OF assms] j n DERIV_unit_G_v)
  from 1 2 3 show ?thesis by (simp add: tape2_gradient_def)
qed

theorem tape2_gradient_is_gradient_witness:
  "shaped 1 \<lparr>kernel1 = [0], bias1 = [0], kernel2 = [0]\<rparr> \<and> (0::nat) < 1
   \<and> ((\<lambda>t. loss_at [0] \<lparr>kernel1 = [t], bias1 = [0], kernel2 = [0]\<rparr>) has_field_derivative 0) (at 0)
   \<and> ((\<lambda>t. loss_at [0] \<lparr>kernel1 = [0], bias1 = [t], kernel2 = [0]\<rparr>) has_field_derivative 0) (at 0)
   \<and> ((\<lambda>t. loss_at [0] \<lparr>kernel1 = [0], bias1 = [0], kernel2 = [t]\<rparr>) has_field_derivative - 1) (at 0)"
  using tape2_gradient_is_gradient [of 1 "\<lparr>kernel1 = [0], bias1 = [0], kernel2 = [0]\<rparr>" 0 "[0]"]
  by (simp add: shaped_def gradient_zero_params)

section \<open>The residual is written in the loop\<close>

text \<open>
  With the equation object replaced by that of another equation, \<open>dy/dx = y\<close>, the run of
  \<open>cfg1\<close> still records the loss 1 of the lagaris02 residual at the zero parameters, where
  the residual function of the equation object gives the loss 0: the loop does not call it.
\<close>

theorem residual_not_from_equation_object_example:
  "\<not> isl (main lib0 () other_equation cfg1)
   \<and> create_training_grid lib0 (collocation_count cfg1) = [0]
   \<and> final_losses (projr (main lib0 () other_equation cfg1)) = [1]
   \<and> reduce_sum_sq (map (\<lambda>x. ode_G other_equation x
                               (trial_y (params_in_epoch lib0 () cfg1 0) x)
                               (dy_dx (params_in_epoch lib0 () cfg1 0) x)) [0]) = 0"
proof -
  have "reduce_sum_sq (map (\<lambda>x. ode_G other_equation x
                               (trial_y (params_in_epoch lib0 () cfg1 0) x)
                               (dy_dx (params_in_epoch lib0 () cfg1 0) x)) [0]) = 0"
    by (simp add: params_first_lib0 other_equation_def reduce_sum_sq_def
        trial_y_def dy_dx_def model_call_one)
  moreover have "create_training_grid lib0 (collocation_count cfg1) = [0]"
    by simp
  ultimately show ?thesis
    using main_other_cfg1 by blast
qed

text \<open>
  C1, as the code has it. In every epoch the residual at each collocation point is
  computed in the loop itself, as \<open>dy_dx + y/5 - exp(-x/5) * cos(x)\<close> from the current trial
  solution and its derivative. The residual function of the equation object is never
  called: replacing it changes nothing of what the script produces.
\<close>

theorem residual_written_in_loop:
  "cur_G (residual_step xs (forward_step lib H xs s)) =
     map (\<lambda>x. dy_dx (trainable_variables (ensure_built lib H s)) x
              + trial_y (trainable_variables (ensure_built lib H s)) x / 5
              - exp (- x / 5) * cos x) xs
   \<and> main lib g (eq\<lparr>ode_G := h\<rparr>) cfg = main lib g eq cfg"
proof -
  have "cur_G (residual_step xs (forward_step lib H xs s)) =
      map (\<lambda>x. residual_G x (trial_y (trainable_variables (ensure_built lib H s)) x)
                              (dy_dx (trainable_variables (ensure_built lib H s)) x)) xs"
    by (simp add: residual_step_def forward_step_def Let_def trial_y_batch residual_batch)
  moreover have "main lib g (eq\<lparr>ode_G := h\<rparr>) cfg = main lib g eq cfg"
    by (simp add: main_eq)
  ultimately show ?thesis
    by (simp add: residual_G_def)
qed

section \<open>The order of the steps of an epoch\<close>

text \<open>
  In the run of \<open>cfg1\<close> both records precede the update: the events of the single epoch
  end with \<open>UPDATE\<close>, and the snapshot in the parameter history is the initial parameter
  vector, not the vector the update produced.
\<close>

theorem records_precede_update_example:
  "main lib0 () lagaris_02 cfg1 = Inr out1
   \<and> final_trace out1 = [FORWARD, RESIDUAL, LOSS, RECORD_LOSS, BACKWARD, RECORD_PARAMS, UPDATE]
   \<and> final_trace out1 \<noteq> [FORWARD, RESIDUAL, LOSS, BACKWARD, UPDATE, RECORD_LOSS, RECORD_PARAMS]
   \<and> final_trace out1 \<noteq> [FORWARD, RESIDUAL, LOSS, BACKWARD, UPDATE, RECORD_PARAMS, RECORD_LOSS]
   \<and> phist_dat out1 = [[0, 0, 0]]
   \<and> hstack (final_params out1) = [0, 0, (1 / 100) / (1 + epsilon)]
   \<and> phist_dat out1 ! 0 \<noteq> hstack (final_params out1)"
  using epsilon_pos by (simp add: main_cfg1) (simp add: out1_def hstack_def add_nonneg_eq_0_iff)

text \<open>
  C3, as the code has it. Within each epoch the steps are taken in the order FORWARD,
  RESIDUAL, LOSS, record of the loss, BACKWARD, record of the parameter snapshot, UPDATE:
  both records precede the update of the optimizer, the recorded loss and snapshot
  are those of the parameters before the update, and the update comes last.
\<close>

theorem epoch_event_order:
  "trace (epoch lib H xs s) =
     trace s @ [FORWARD, RESIDUAL, LOSS, RECORD_LOSS, BACKWARD, RECORD_PARAMS, UPDATE]
   \<and> trace (train_loop lib H xs n s) =
       trace s @ concat (replicate n [FORWARD, RESIDUAL, LOSS, RECORD_LOSS, BACKWARD, RECORD_PARAMS, UPDATE])
   \<and> losses (epoch lib H xs s) = losses s @ [loss_at xs (trainable_variables (ensure_built lib H s))]
   \<and> phist (epoch lib H xs s) = phist s @ [hstack (trainable_variables (ensure_built lib H s))]
   \<and> weights (epoch lib H xs s) =
       Some (snd (apply_gradients (adam s)
          (tape2_gradient xs (trainable_variables (ensure_built lib H s)))
          (trainable_variables (ensure_built lib H s))))"
  by (simp add: epoch_trace train_trace epoch_losses epoch_phist epoch_weights epoch_order_def)

section \<open>No check of finiteness\<close>

text \<open>
  With the learning rate \<open>2 ^ 67\<close> the loss of the second epoch is beyond the range of
  float32, and the script still runs both epochs, records both losses and saves a
  parameter history of two rows.
\<close>

theorem overflow_does_not_abort_example:
  "\<not> isl (main lib0 () lagaris_02 cfg_big)
   \<and> epochs cfg_big = 2
   \<and> \<not> f32_finite (final_losses (projr (main lib0 () lagaris_02 cfg_big)) ! 1)
   \<and> length (final_losses (projr (main lib0 () lagaris_02 cfg_big))) = 2
   \<and> length (phist_dat (projr (main lib0 () lagaris_02 cfg_big))) = 2"
proof -
  obtain out where out: "main lib0 () lagaris_02 cfg_big = Inr out"
    using main_returns [of lib0 cfg_big "()" lagaris_02] by auto
  have "final_losses out ! 1 = loss_at [0] (params_in_epoch lib0 () cfg_big (Suc 0))"
    by (simp add: main_Inr(4) [OF out])
  also have "\<dots> = (2 ^ 67 / (1 + epsilon) / 2 - 1) ^ 2"
    by (simp add: params_second_lib0 loss_one_zero)
  finally have "\<not> f32_finite (final_losses out ! 1)"
    using big_loss by simp
  then show ?thesis
    by (simp add: out main_Inr(3,4) [OF out])
qed

text \<open>
  C4, as the code has it. The script has no check of the loss: whatever values the losses
  take, a run whose grid has \<open>nt\<close> points completes all its epochs, records the loss and
  the snapshot of each, and saves the whole parameter history. The only abort is the
  \<^verbatim>\<open>ValueError\<close> of line 89, before training, when the grid does not have \<open>nt\<close> points.
\<close>

theorem run_has_no_finiteness_check:
  "(length (create_training_grid lib (collocation_count cfg)) \<noteq> collocation_count cfg
      \<longrightarrow> main lib g eq cfg = Inl ValueError)
   \<and> (length (create_training_grid lib (collocation_count cfg)) = collocation_count cfg
      \<longrightarrow> (\<exists>out. main lib g eq cfg = Inr out
            \<and> final_losses out =
                map (\<lambda>k. loss_at (create_training_grid lib (collocation_count cfg))
                            (params_in_epoch lib g cfg k)) [0..<epochs cfg]
            \<and> phist_dat out = map (\<lambda>k. hstack (params_in_epoch lib g cfg k)) [0..<epochs cfg]
            \<and> length (final_losses out) = epochs cfg
            \<and> length (phist_dat out) = epochs cfg))"
proof (intro conjI impI)
  assume "length (create_training_grid lib (collocation_count cfg)) \<noteq> collocation_count cfg"
  then show "main lib g eq cfg = Inl ValueError" by (simp add: main_eq)
next
  assume "length (create_training_grid lib (collocation_count cfg)) = collocation_count cfg"
  from main_returns [OF this, of g eq]
  obtain out where out: "main lib g eq cfg = Inr out" ..
  show "\<exists>out. main lib g eq cfg = Inr out
            \<and> final_losses out =
                map (\<lambda>k. loss_at (create_training_grid lib (collocation_count cfg))
                            (params_in_epoch lib g cfg k)) [0..<epochs cfg]
            \<and> phist_dat out = map (\<lambda>k. hstack (params_in_epoch lib g cfg k)) [0..<epochs cfg]
            \<and> length (final_losses out) = epochs cfg
            \<and> length (phist_dat out) = epochs cfg"
    using out main_Inr(3,4) [OF out] by simp
qed

theorem run_has_no_finiteness_check_witness:
  "length (create_training_grid lib0 (collocation_count cfg_big)) = collocation_count cfg_big
   \<and> (\<exists>out. main lib0 () lagaris_02 cfg_big = Inr out
         \<and> final_losses out =
             [loss_at [0] (params_in_epoch lib0 () cfg_big 0),
              loss_at [0] (params_in_epoch lib0 () cfg_big 1)]
         \<and> length (final_losses out) = 2 \<and> length (phist_dat out) = 2)"
  using run_has_no_finiteness_check [of lib0 cfg_big "()" lagaris_02]
  by (auto simp: upt_rec [of 0] upt_rec [of "Suc 0"])

section \<open>The update of the optimizer\<close>

text \<open>
  C5. In every epoch each of the three parameter tensors is assigned once, by the Adam
  rule applied to its own moment estimates and its own gradient, and the three gradients
  are those of \<open>L\<close> at the parameters the epoch started with: no update sees a tensor that
  another update of the same epoch has already changed. The step counter advances by
  one in each epoch.
\<close>

theorem adam_update_once_per_tensor:
  "cur_grad (epoch lib H xs s) = tape2_gradient xs (trainable_variables (ensure_built lib H s))
   \<and> kernel1 (trainable_variables (epoch lib H xs s)) =
       snd (snd (adam_tensor (opt_learning_rate (adam s)) (iterations (adam s) + 1)
         (kernel1 (fst (old_moments (adam s) (trainable_variables (ensure_built lib H s)))))
         (kernel1 (snd (old_moments (adam s) (trainable_variables (ensure_built lib H s)))))
         (kernel1 (tape2_gradient xs (trainable_variables (ensure_built lib H s))))
         (kernel1 (trainable_variables (ensure_built lib H s)))))
   \<and> bias1 (trainable_variables (epoch lib H xs s)) =
       snd (snd (adam_tensor (opt_learning_rate (adam s)) (iterations (adam s) + 1)
         (bias1 (fst (old_moments (adam s) (trainable_variables (ensure_built lib H s)))))
         (bias1 (snd (old_moments (adam s) (trainable_variables (ensure_built lib H s)))))
         (bias1 (tape2_gradient xs (trainable_variables (ensure_built lib H s))))
         (bias1 (trainable_variables (ensure_built lib H s)))))
   \<and> kernel2 (trainable_variables (epoch lib H xs s)) =
       snd (snd (adam_tensor (opt_learning_rate (adam s)) (iterations (adam s) + 1)
         (kernel2 (fst (old_moments (adam s) (trainable_variables (ensure_built lib H s)))))
         (kernel2 (snd (old_moments (adam s) (trainable_variables (ensure_built lib H s)))))
         (kernel2 (tape2_gradient xs (trainable_variables (ensure_built lib H s))))
         (kernel2 (trainable_variables (ensure_built lib H s)))))
   \<and> iterations (adam (epoch lib H xs s)) = iterations (adam s) + 1
   \<and> iterations (adam (train_loop lib H xs n s)) = iterations (adam s) + n"
  by (simp add: epoch_cur_grad train_iterations epoch_adam trainable_variables_def [of "epoch lib H xs s"]
      epoch_weights apply_gradients_eq Let_def)

section \<open>The histories\<close>

text \<open>
  C6. When the script ends without an error, the parameter history and the loss history
  have \<open>n_epochs\<close> entries each, and every entry of the parameter history is the three
  tensors \<open>w\<close>, \<open>u\<close>, \<open>v\<close> one after the other, each of length \<open>H\<close>: a vector of length \<open>3H\<close>.
\<close>

theorem history_lengths_and_row_width:
  assumes "main lib g eq cfg = Inr out"
  shows "length (phist_dat out) = epochs cfg \<and> length (final_losses out) = epochs cfg
    \<and> (\<forall>k < epochs cfg.
          phist_dat out ! k =
            kernel1 (params_in_epoch lib g cfg k) @ bias1 (params_in_epoch lib g cfg k)
              @ kernel2 (params_in_epoch lib g cfg k)
          \<and> length (kernel1 (params_in_epoch lib g cfg k)) = hidden_units cfg
          \<and> length (bias1 (params_in_epoch lib g cfg k)) = hidden_units cfg
          \<and> length (kernel2 (params_in_epoch lib g cfg k)) = hidden_units cfg
          \<and> length (phist_dat out ! k) = 3 * hidden_units cfg)"
  using shaped_params_in_epoch [of cfg lib g]
  by (simp add: main_Inr(3,4) [OF assms] hstack_def shaped_def)

theorem history_lengths_and_row_width_witness:
  "main lib0 () lagaris_02 cfg1 = Inr out1 \<and> length (phist_dat out1) = 1
   \<and> length (final_losses out1) = 1 \<and> length (phist_dat out1 ! 0) = 3 * 1"
  using history_lengths_and_row_width [OF main_cfg1] main_cfg1 by simp




text \<open>
  With the learning rate 0 the update leaves the parameters as they are: the parameters
  the script ends with are equal to the snapshot in the parameter history.
\<close>

theorem final_parameters_recorded_example:
  "\<not> isl (main lib0 () lagaris_02 cfg_still)
   \<and> learning_rate cfg_still = 0
   \<and> phist_dat (projr (main lib0 () lagaris_02 cfg_still)) = [[0, 0, 0]]
   \<and> hstack (final_params (projr (main lib0 () lagaris_02 cfg_still))) = [0, 0, 0]
   \<and> hstack (final_params (projr (main lib0 () lagaris_02 cfg_still)))
        \<in> set (phist_dat (projr (main lib0 () lagaris_02 cfg_still)))"
proof -
  obtain out where out: "main lib0 () lagaris_02 cfg_still = Inr out"
    using main_returns [of lib0 cfg_still "()" lagaris_02] by auto
  have "phist_dat out = [[0, 0, 0]]"
    by (simp add: main_Inr(3) [OF out] params_first_lib0 hstack_def)
  moreover have "hstack (final_params out) = [0, 0, 0]"
    by (simp add: main_Inr(6) [OF out] params_second_lib0 hstack_def)
  ultimately show ?thesis
    by (simp add: out)
qed

text \<open>
  C10, as the code has it. For every epoch \<open>k\<close> the snapshot \<open>ParameterHistory[k]\<close> is the
  parameter vector that produced \<open>LossHistory[k]\<close>: both are taken before the update of that
  epoch, and the parameters of the next epoch are one Adam step further. The history has
  \<open>n_epochs\<close> entries, the last of them the parameters before the last update: no snapshot
  is taken after the last update. The parameters the script ends with, which the final
  evaluation uses, are one Adam step past that last snapshot; they may be equal to it in
  value.
\<close>

theorem snapshot_is_pre_update_parameters:
  assumes "main lib g eq cfg = Inr out" and "k < epochs cfg"
  shows "phist_dat out ! k = hstack (params_in_epoch lib g cfg k)
    \<and> final_losses out ! k =
        loss_at (create_training_grid lib (collocation_count cfg)) (params_in_epoch lib g cfg k)
    \<and> params_in_epoch lib g cfg (Suc k) =
        snd (apply_gradients (adam (state_after lib g cfg k))
               (tape2_gradient (create_training_grid lib (collocation_count cfg))
                  (params_in_epoch lib g cfg k))
               (params_in_epoch lib g cfg k))
    \<and> length (phist_dat out) = epochs cfg
    \<and> last (phist_dat out) = hstack (params_in_epoch lib g cfg (epochs cfg - 1))
    \<and> final_params out = params_in_epoch lib g cfg (Suc (epochs cfg - 1))
    \<and> Yt_dat out = map (trial_y (final_params out)) (create_training_grid lib (collocation_count cfg))
    \<and> dYt_dx_dat out = map (dy_dx (final_params out)) (create_training_grid lib (collocation_count cfg))"
proof -
  have pos: "epochs cfg \<noteq> 0" using assms(2) by simp
  then have l: "last (map (\<lambda>k. hstack (params_in_epoch lib g cfg k)) [0..<epochs cfg])
      = hstack (params_in_epoch lib g cfg (epochs cfg - 1))"
    by (simp add: last_map)
  show ?thesis
    using assms(2) pos l
    by (simp add: main_Inr(3,4,6,7,8) [OF assms(1)] params_step)
qed

theorem snapshot_is_pre_update_parameters_witness:
  "main lib0 () lagaris_02 cfg1 = Inr out1 \<and> (0::nat) < epochs cfg1
   \<and> phist_dat out1 ! 0 = hstack (params_in_epoch lib0 () cfg1 0)
   \<and> final_losses out1 ! 0 = loss_at (create_training_grid lib0 (collocation_count cfg1)) (params_in_epoch lib0 () cfg1 0)
   \<and> length (phist_dat out1) = epochs cfg1
   \<and> final_params out1 = params_in_epoch lib0 () cfg1 (Suc 0)
   \<and> final_params out1 =
        snd (apply_gradients (adam (state_after lib0 () cfg1 0))
               (tape2_gradient (create_training_grid lib0 (collocation_count cfg1))
                  (params_in_epoch lib0 () cfg1 0))
               (params_in_epoch lib0 () cfg1 0))"
  using snapshot_is_pre_update_parameters [OF main_cfg1, of 0] main_cfg1 by simp

section \<open>The optional analytical outputs\<close>

text \<open>
  C9. A run whose grid has \<open>nt\<close> points ends without an error whatever analytical
  functions the equation has. The analytical solution and the error of the trained
  solution are written exactly when the equation has an analytical solution; the
  analytical derivative and the error of the trained derivative exactly when it has an
  analytical derivative. With neither function nothing of the four is written; with one
  of the two, its outputs are written and the others are not.
\<close>

theorem optional_outputs_gated_independently:
  assumes "length (create_training_grid lib (collocation_count cfg)) = collocation_count cfg"
  shows "\<exists>out. main lib g eq cfg = Inr out
     \<and> (Ya_dat out = None) = (ode_Ya eq = None)
     \<and> (Y_err_dat out = None) = (ode_Ya eq = None)
     \<and> (dYa_dx_dat out = None) = (ode_dYa_dx eq = None)
     \<and> (dY_dx_err_dat out = None) = (ode_dYa_dx eq = None)"
proof -
  obtain out where out: "main lib g eq cfg = Inr out"
    using main_returns [OF assms] by blast
  show ?thesis
    using main_Inr(9-12) [OF out] out by (auto simp: map_option_case split: option.splits)
qed

theorem optional_outputs_gated_independently_witness:
  "length (create_training_grid lib0 (collocation_count cfg1)) = collocation_count cfg1
   \<and> (\<exists>out. main lib0 () other_equation cfg1 = Inr out
        \<and> Ya_dat out \<noteq> None \<and> Y_err_dat out \<noteq> None
        \<and> dYa_dx_dat out = None \<and> dY_dx_err_dat out = None)"
  using optional_outputs_gated_independently [of lib0 cfg1 "()" other_equation]
  by (simp add: other_equation_def)

section \<open>The trial solution at 0\<close>




end
